theory Spec2Isabelle
  imports Main "HOL-Library.Sublist"
begin

section \<open>Python values, exceptions and the builtins the generator uses\<close>

text \<open>
  The module under study is \<^verbatim>\<open>query_generators/openai.py\<close>: the class
  \<^verbatim>\<open>OpenAIQueryGenerator\<close> with its two completion invokers, the static token
  counter and \<^verbatim>\<open>generate_query\<close>.

  A completion object is indexed as \<^verbatim>\<open>completion["choices"][0]["message"]["content"]\<close>,
  so it is modelled as a JSON-like value.
\<close>

datatype json =
    JNull
  | JBool bool
  | JNum int
  | JStr string
  | JList "json list"
  | JDict "(string \<times> json) list"

text \<open>
  Exceptions (subclasses of \<^verbatim>\<open>Exception\<close>). The two overload classes of the client
  library are the ones the invokers retry on; \<open>KeyError\<close> carries the missing key;
  \<open>OtherException cls msg\<close> is any other class. How Python prints an exception
  (\<^verbatim>\<open>type(e)\<close>, \<^verbatim>\<open>str(e)\<close>) is a parameter of the environment below.
\<close>

datatype exc =
    RateLimitError string
  | ServiceUnavailableError string
  | KeyError json
  | IndexError
  | TypeError
  | AttributeError
  | ValueError
  | OtherException string string

text \<open>\<^verbatim>\<open>except (openai.error.RateLimitError, openai.error.ServiceUnavailableError)\<close>\<close>

fun is_overloaded :: "exc \<Rightarrow> bool" where
  "is_overloaded (RateLimitError m) = True"
| "is_overloaded (ServiceUnavailableError m) = True"
| "is_overloaded e = False"

text \<open>\<^verbatim>\<open>isinstance(e, KeyError)\<close>\<close>

fun is_KeyError :: "exc \<Rightarrow> bool" where
  "is_KeyError (KeyError k) = True"
| "is_KeyError e = False"

text \<open>Sequencing of statements that may raise: the first exception wins.\<close>

definition and_then :: "exc + 'a \<Rightarrow> ('a \<Rightarrow> exc + 'b) \<Rightarrow> exc + 'b" where
  "and_then r f = (case r of Inl e \<Rightarrow> Inl e | Inr v \<Rightarrow> f v)"

text \<open>
  \<^verbatim>\<open>xs[i]\<close> on a list or a string: \<open>i\<close> from \<open>0\<close> to \<open>len - 1\<close> reads from the
  front, \<open>i\<close> from \<open>- len\<close> to \<open>- 1\<close> reads from the back, anything else raises
  \<^verbatim>\<open>IndexError\<close>.
\<close>

definition getitem :: "'a list \<Rightarrow> int \<Rightarrow> exc + 'a" where
  "getitem xs i =
     (if 0 \<le> i \<and> i < int (length xs) then Inr (xs ! nat i)
      else if i < 0 \<and> - int (length xs) \<le> i then Inr (xs ! nat (int (length xs) + i))
      else Inl IndexError)"

text \<open>\<^verbatim>\<open>v[key]\<close> with a string key, and \<^verbatim>\<open>v[i]\<close> with an integer, on a JSON value.\<close>

fun getitem_key :: "json \<Rightarrow> string \<Rightarrow> exc + json" where
  "getitem_key (JDict kvs) k =
     (case map_of kvs k of None \<Rightarrow> Inl (KeyError (JStr k)) | Some v \<Rightarrow> Inr v)"
| "getitem_key v k = Inl TypeError"

fun getitem_index :: "json \<Rightarrow> int \<Rightarrow> exc + json" where
  "getitem_index (JList xs) i = getitem xs i"
| "getitem_index (JStr s) i = and_then (getitem s i) (\<lambda>c. Inr (JStr [c]))"
| "getitem_index (JDict kvs) i = Inl (KeyError (JNum i))"
| "getitem_index v i = Inl TypeError"

subsection \<open>\<^verbatim>\<open>str.split(sep)\<close>\<close>

text \<open>
  \<open>find_str sep s\<close> is \<^verbatim>\<open>s.find(sep)\<close>: the index of the leftmost occurrence.
  \<open>split_from\<close> is the loop of \<^verbatim>\<open>str.split\<close> with a separator: cut at the
  leftmost occurrence, continue after it. An empty separator raises \<^verbatim>\<open>ValueError\<close>.
\<close>

fun find_str :: "string \<Rightarrow> string \<Rightarrow> nat option" where
  "find_str sep [] = (if sep = [] then Some 0 else None)"
| "find_str sep (c # cs) =
     (if prefix sep (c # cs) then Some 0 else map_option Suc (find_str sep cs))"

lemma find_str_bound: "find_str sep s = Some i \<Longrightarrow> i + length sep \<le> length s"
  by (induction s arbitrary: i) (auto split: if_splits dest: prefix_length_le)

function split_from :: "string \<Rightarrow> string \<Rightarrow> string list" where
  "split_from sep s =
     (if sep = [] then [s]
      else case find_str sep s of
             None \<Rightarrow> [s]
           | Some i \<Rightarrow> take i s # split_from sep (drop (i + length sep) s))"
  by pat_completeness auto
termination
proof (relation "measure (\<lambda>(sep, s). length s)")
  show "wf (measure (\<lambda>(sep, s). length s))" by simp
next
  fix sep s :: string and i :: nat
  assume "sep \<noteq> []" and "find_str sep s = Some i"
  then have "i + length sep \<le> length s" and "0 < length sep"
    by (auto dest: find_str_bound)
  then have "length s - (i + length sep) < length s"
    by arith
  then show "((sep, drop (i + length sep) s), (sep, s)) \<in> measure (\<lambda>(sep, s). length s)"
    by simp
qed

declare split_from.simps [simp del]

definition split :: "string \<Rightarrow> string \<Rightarrow> exc + string list" where
  "split s sep = (if sep = [] then Inl ValueError else Inr (split_from sep s))"

section \<open>Response extraction\<close>

text \<open>
  Line 184, \<^verbatim>\<open>results.split("```sql")[-1]\<close>, on a string \<open>results\<close>.
\<close>

definition sql_fence :: string where
  "sql_fence = ''```sql''"

definition extract_query :: "string \<Rightarrow> exc + string" where
  "extract_query results = and_then (split results sql_fence) (\<lambda>parts. getitem parts (- 1))"

section \<open>The generator object, the completion service and the environment\<close>

text \<open>
  A chat message is a dict with the keys \<^verbatim>\<open>role\<close> and \<^verbatim>\<open>content\<close>, kept in
  insertion order, as \<^verbatim>\<open>message.items()\<close> walks it. The variable
  \<^verbatim>\<open>package\<close> of \<^verbatim>\<open>generate_query\<close> holds either the prompt string or the
  message list.
\<close>

type_synonym message = "(string \<times> string) list"

datatype package = Prompt string | Messages "message list"

text \<open>
  One call of the client library: which class's \<^verbatim>\<open>create\<close> is called, and its
  keyword arguments. The payload is passed either as \<^verbatim>\<open>messages=\<close> or as
  \<^verbatim>\<open>prompt=\<close>.
\<close>

datatype endpoint = ChatCompletion | Completion

datatype payload = Kw_messages package | Kw_prompt package

record request =
  endpoint :: endpoint
  req_model :: string
  req_payload :: payload
  max_tokens :: int
  temperature :: int
  stop :: "string list"
  logit_bias :: "(string \<times> int) list"

text \<open>
  The attributes of \<^verbatim>\<open>self\<close>. The constructor sets the first five; the scratch
  attributes \<^verbatim>\<open>err\<close>, \<^verbatim>\<open>query\<close>, \<^verbatim>\<open>reason\<close> and \<^verbatim>\<open>completion\<close>
  are assigned by \<^verbatim>\<open>generate_query\<close> and survive from one call to the next.
  The first three are assigned at the start of every call, before any use. The last is
  assigned only when a completion comes back: \<open>None\<close> says that the attribute does not
  exist yet.
\<close>

record generator =
  db_name :: string
  model :: string
  prompt_file :: string
  timeout :: nat
  verbose :: bool
  self_err :: string
  self_query :: string
  self_reason :: string
  self_completion :: "json option"

text \<open>
  Everything outside the module is a parameter:
  \<^item> \<open>read_file\<close>: \<^verbatim>\<open>open(path).read()\<close>;
  \<^item> \<open>prune_metadata_str question db_name\<close>: the schema pruner of \<^verbatim>\<open>utils.pruning\<close>;
  \<^item> \<open>format template user_question table_metadata_string\<close>: \<^verbatim>\<open>str.format\<close> with
    these two keyword arguments;
  \<^item> \<open>create n req\<close>: the reply of the completion service to the \<open>n\<close>-th call
    (from 0) of one invocation, with the time the call takes in milliseconds;
  \<^item> \<open>encoding_for_model\<close>: the tokenizer library, whose encoder maps a text to its tokens;
  \<^item> \<open>type_repr\<close>, \<open>exc_str\<close>, \<open>value_str\<close>: how Python prints \<^verbatim>\<open>type(e)\<close>,
    an exception and a value that is not a string.
  Each of the first five may raise.
\<close>

record env =
  read_file :: "string \<Rightarrow> exc + string"
  prune_metadata_str :: "string \<Rightarrow> string \<Rightarrow> exc + string"
  format :: "string \<Rightarrow> string \<Rightarrow> string \<Rightarrow> exc + string"
  create :: "nat \<Rightarrow> request \<Rightarrow> nat \<times> (exc + json)"
  encoding_for_model :: "string \<Rightarrow> exc + (string \<Rightarrow> exc + nat list)"
  type_repr :: "exc \<Rightarrow> string"
  exc_str :: "exc \<Rightarrow> string"
  value_str :: "json \<Rightarrow> string"

text \<open>\<^verbatim>\<open>f"{v}"\<close>: a string prints as itself.\<close>

definition py_str :: "env \<Rightarrow> json \<Rightarrow> string" where
  "py_str E v = (case v of JStr s \<Rightarrow> s | _ \<Rightarrow> value_str E v)"

text \<open>
  What running a piece of the program gives: the value returned or the exception raised,
  the service calls made and the lines printed; for an invoker also the time it takes
  (milliseconds).
\<close>

record 'a run =
  outcome :: "exc + 'a"
  calls :: "request list"
  printed :: "string list"

record 'a timed_run = "'a run" +
  elapsed :: nat

section \<open>The completion invokers\<close>

text \<open>
  \<^verbatim>\<open>completion["choices"][0]["message"]["content"]\<close> and
  \<^verbatim>\<open>completion["choices"][0]["text"]\<close>.
\<close>

definition message_content :: "json \<Rightarrow> exc + json" where
  "message_content completion =
     and_then (getitem_key completion ''choices'') (\<lambda>choices.
     and_then (getitem_index choices 0) (\<lambda>choice.
     and_then (getitem_key choice ''message'') (\<lambda>msg.
     getitem_key msg ''content'')))"

definition choice_text :: "json \<Rightarrow> exc + json" where
  "choice_text completion =
     and_then (getitem_key completion ''choices'') (\<lambda>choices.
     and_then (getitem_index choices 0) (\<lambda>choice.
     getitem_key choice ''text''))"

definition overloaded_line :: string where
  "overloaded_line = ''Model overloaded. Pausing for 5s before retrying...''"

text \<open>
  The keyword arguments of one \<^verbatim>\<open>create\<close> call, in the order the source writes
  them: \<^verbatim>\<open>model\<close>, the payload, \<^verbatim>\<open>max_tokens\<close>, \<^verbatim>\<open>temperature\<close>,
  \<^verbatim>\<open>stop\<close>, \<^verbatim>\<open>logit_bias\<close>.
\<close>

abbreviation api_request ::
  "endpoint \<Rightarrow> string \<Rightarrow> payload \<Rightarrow> int \<Rightarrow> int \<Rightarrow> string list \<Rightarrow> (string \<times> int) list \<Rightarrow>
     request" where
  "api_request ep mdl pl max_toks temp stp bias \<equiv>
     \<lparr>endpoint = ep, req_model = mdl, req_payload = pl, max_tokens = max_toks,
      temperature = temp, stop = stp, logit_bias = bias\<rparr>"

text \<open>
  \<^verbatim>\<open>get_chat_completion\<close>, lines 34 to 72. The \<^verbatim>\<open>try\<close> body is the call and
  the indexing of its reply. The first handler sleeps 5 seconds and calls again; what
  that second call or its indexing raises is raised inside a handler, so the second
  handler of the same \<^verbatim>\<open>try\<close> does not catch it.
\<close>

definition get_chat_completion ::
  "env \<Rightarrow> generator \<Rightarrow> string \<Rightarrow> package \<Rightarrow> int \<Rightarrow> int \<Rightarrow> string list \<Rightarrow>
     (string \<times> int) list \<Rightarrow> json timed_run" where
  "get_chat_completion E self mdl messages max_toks temp stp bias =
     (let first = api_request ChatCompletion mdl (Kw_messages messages) max_toks temp stp bias;
          (t1, reply1) = create E 0 first
      in case and_then reply1 message_content of
           Inr generated_text \<Rightarrow>
             \<lparr>outcome = Inr generated_text, calls = [first], printed = [], elapsed = t1\<rparr>
         | Inl e \<Rightarrow>
             if is_overloaded e then
               (let retry =
                      api_request ChatCompletion mdl (Kw_messages messages) max_toks temp stp bias;
                    (t2, reply2) = create E 1 retry
                in \<lparr>outcome = and_then reply2 message_content,
                    calls = [first, retry],
                    printed = (if verbose self then [overloaded_line] else []),
                    elapsed = t1 + 5000 + t2\<rparr>)
             else
               \<lparr>outcome = Inr (JStr ''''), calls = [first],
                printed = (if verbose self then [type_repr E e @ '' '' @ exc_str E e] else []),
                elapsed = t1\<rparr>)"

text \<open>
  \<^verbatim>\<open>get_nonchat_completion\<close>, lines 74 to 112: the first call is
  \<^verbatim>\<open>openai.Completion.create\<close>, the call of the retry handler (line 100) is
  \<^verbatim>\<open>openai.ChatCompletion.create\<close> with the same keyword arguments.
\<close>

definition get_nonchat_completion ::
  "env \<Rightarrow> generator \<Rightarrow> string \<Rightarrow> package \<Rightarrow> int \<Rightarrow> int \<Rightarrow> string list \<Rightarrow>
     (string \<times> int) list \<Rightarrow> json timed_run" where
  "get_nonchat_completion E self mdl prompt max_toks temp stp bias =
     (let first = api_request Completion mdl (Kw_prompt prompt) max_toks temp stp bias;
          (t1, reply1) = create E 0 first
      in case and_then reply1 choice_text of
           Inr generated_text \<Rightarrow>
             \<lparr>outcome = Inr generated_text, calls = [first], printed = [], elapsed = t1\<rparr>
         | Inl e \<Rightarrow>
             if is_overloaded e then
               (let retry =
                      api_request ChatCompletion mdl (Kw_prompt prompt) max_toks temp stp bias;
                    (t2, reply2) = create E 1 retry
                in \<lparr>outcome = and_then reply2 choice_text,
                    calls = [first, retry],
                    printed = (if verbose self then [overloaded_line] else []),
                    elapsed = t1 + 5000 + t2\<rparr>)
             else
               \<lparr>outcome = Inr (JStr ''''), calls = [first],
                printed = (if verbose self then [type_repr E e @ '' '' @ exc_str E e] else []),
                elapsed = t1\<rparr>)"

section \<open>Token counting\<close>

text \<open>
  \<^verbatim>\<open>count_tokens\<close>, lines 114 to 132, a static method. The two nested
  \<^verbatim>\<open>for\<close> loops add to \<^verbatim>\<open>num_tokens\<close>; an exception of the encoder ends them.
\<close>

definition legacy_model :: string where
  "legacy_model = ''text-davinci-003''"

fun count_items :: "(string \<Rightarrow> exc + nat list) \<Rightarrow> message \<Rightarrow> nat \<Rightarrow> exc + nat" where
  "count_items encode [] num_tokens = Inr num_tokens"
| "count_items encode ((k, v) # items) num_tokens =
     (case encode v of
        Inl e \<Rightarrow> Inl e
      | Inr toks \<Rightarrow> count_items encode items (num_tokens + length toks))"

fun count_messages :: "(string \<Rightarrow> exc + nat list) \<Rightarrow> message list \<Rightarrow> nat \<Rightarrow> exc + nat" where
  "count_messages encode [] num_tokens = Inr num_tokens"
| "count_messages encode (m # ms) num_tokens =
     (case count_items encode m num_tokens of
        Inl e \<Rightarrow> Inl e
      | Inr n \<Rightarrow> count_messages encode ms n)"

definition count_tokens ::
  "(string \<Rightarrow> exc + (string \<Rightarrow> exc + nat list)) \<Rightarrow> string \<Rightarrow> message list \<Rightarrow> string \<Rightarrow>
     exc + nat" where
  "count_tokens enc_for mdl messages prompt =
     (case enc_for mdl of
        Inl e \<Rightarrow> Inl e
      | Inr tokenizer \<Rightarrow>
          if mdl \<noteq> legacy_model then count_messages tokenizer messages 0
          else and_then (tokenizer prompt) (\<lambda>toks. Inr (length toks)))"

text \<open>
  The count in the words of the specification, for an encoder \<open>enc\<close> that accepts every
  text: in chat mode the sum of the encoded lengths of every value of every message (the
  role tags are values too), in legacy mode the encoded length of the prompt.
\<close>

definition chat_token_count_spec :: "(string \<Rightarrow> nat list) \<Rightarrow> message list \<Rightarrow> nat" where
  "chat_token_count_spec enc messages =
     (\<Sum>m\<leftarrow>messages. \<Sum>kv\<leftarrow>m. length (enc (snd kv)))"

definition legacy_token_count_spec :: "(string \<Rightarrow> nat list) \<Rightarrow> string \<Rightarrow> nat" where
  "legacy_token_count_spec enc prompt = length (enc prompt)"

section \<open>\<^verbatim>\<open>generate_query\<close>\<close>

text \<open>
  The returned dict, without \<^verbatim>\<open>latency_seconds\<close> (a difference of two readings of
  the wall clock).
\<close>

record result =
  query :: string
  reason :: string
  err :: string
  tokens_used :: nat

text \<open>Lines 144 to 156: the three messages of the chat mode.\<close>

definition chat_messages :: "env \<Rightarrow> generator \<Rightarrow> string \<Rightarrow> string \<Rightarrow> exc + message list" where
  "chat_messages E self question chat_prompt =
     and_then (split chat_prompt ''### Input:'') (\<lambda>parts0.
     and_then (getitem parts0 0) (\<lambda>sys_prompt.
     and_then (split chat_prompt ''### Input:'') (\<lambda>parts1.
     and_then (getitem parts1 1) (\<lambda>after_input.
     and_then (split after_input ''### Response:'') (\<lambda>parts2.
     and_then (getitem parts2 0) (\<lambda>user_template.
     and_then (split chat_prompt ''### Response:'') (\<lambda>parts3.
     and_then (getitem parts3 1) (\<lambda>assistant_prompt.
     and_then (prune_metadata_str E question (db_name self)) (\<lambda>table_metadata_string.
     and_then (format E user_template question table_metadata_string) (\<lambda>user_prompt.
     Inr [[(''role'', ''system''), (''content'', sys_prompt)],
          [(''role'', ''user''), (''content'', user_prompt)],
          [(''role'', ''assistant''), (''content'', assistant_prompt)]]))))))))))"

text \<open>Lines 158 to 161: the single prompt of the legacy mode.\<close>

definition legacy_prompt :: "env \<Rightarrow> generator \<Rightarrow> string \<Rightarrow> string \<Rightarrow> exc + string" where
  "legacy_prompt E self question chat_prompt =
     and_then (prune_metadata_str E question (db_name self)) (\<lambda>table_metadata_string.
     format E chat_prompt question table_metadata_string)"

text \<open>Lines 143 to 161: what \<^verbatim>\<open>package\<close> will hold.\<close>

definition build_package :: "env \<Rightarrow> generator \<Rightarrow> string \<Rightarrow> string \<Rightarrow> exc + package" where
  "build_package E self question chat_prompt =
     (if model self \<noteq> legacy_model
      then and_then (chat_messages E self question chat_prompt) (\<lambda>messages. Inr (Messages messages))
      else and_then (legacy_prompt E self question chat_prompt) (\<lambda>prompt. Inr (Prompt prompt)))"

text \<open>
  Lines 162 to 182: \<^verbatim>\<open>function_to_run\<close> applied to
  \<^verbatim>\<open>(self.model, package, 400, 0, ["```"])\<close>; \<^verbatim>\<open>logit_bias\<close> keeps its
  default \<^verbatim>\<open>{}\<close>.
\<close>

datatype invoker = Get_chat_completion | Get_nonchat_completion

definition function_to_run :: "generator \<Rightarrow> invoker" where
  "function_to_run self =
     (if model self = legacy_model then Get_nonchat_completion else Get_chat_completion)"

definition invoke :: "invoker \<Rightarrow> env \<Rightarrow> generator \<Rightarrow> package \<Rightarrow> json timed_run" where
  "invoke f E self package =
     (case f of
        Get_nonchat_completion \<Rightarrow>
          get_nonchat_completion E self (model self) package 400 0 [''```''] []
      | Get_chat_completion \<Rightarrow>
          get_chat_completion E self (model self) package 400 0 [''```''] [])"

text \<open>
  \<^verbatim>\<open>func_timeout(self.timeout, f, args)\<close>: the value or the exception of \<open>f\<close> when
  it ends within \<open>self.timeout\<close> seconds, \<^verbatim>\<open>FunctionTimedOut\<close> otherwise.
\<close>

datatype 'a waited = FunctionTimedOut | Ended "exc + 'a"

definition func_timeout :: "nat \<Rightarrow> 'a timed_run \<Rightarrow> 'a waited" where
  "func_timeout secs r =
     (if 1000 * secs < elapsed r then FunctionTimedOut else Ended (outcome r))"

text \<open>
  Lines 190 to 198, the handler \<^verbatim>\<open>except Exception as e\<close>. The result is the new
  \<^verbatim>\<open>self\<close>, the lines printed, and the exception the handler itself raises, if any:
  line 196 reads \<^verbatim>\<open>self.completion\<close>, which raises \<^verbatim>\<open>AttributeError\<close> when
  the attribute was never assigned.
\<close>

definition error_text :: "env \<Rightarrow> exc \<Rightarrow> string" where
  "error_text E e = ''QUERY GENERATION ERROR: '' @ type_repr E e @ '', '' @ exc_str E e"

definition on_exception :: "env \<Rightarrow> generator \<Rightarrow> exc \<Rightarrow> generator \<times> string list \<times> exc option" where
  "on_exception E self e =
     (let out = (if verbose self
                 then [''Error while generating query: '' @ type_repr E e @ '', '' @
                         exc_str E e @ '')'']
                 else []);
          self1 = self\<lparr>self_query := '''', self_reason := ''''\<rparr>
      in if is_KeyError e then
           (case self_completion self1 of
              None \<Rightarrow> (self1, out, Some AttributeError)
            | Some completion \<Rightarrow>
                (self1\<lparr>self_err := error_text E e @ '', Completion: '' @ py_str E completion\<rparr>,
                 out, None))
         else (self1\<lparr>self_err := error_text E e\<rparr>, out, None))"

text \<open>Line 184 on any value: only a string has the method \<^verbatim>\<open>split\<close>.\<close>

definition query_of :: "json \<Rightarrow> exc + string" where
  "query_of results = (case results of JStr s \<Rightarrow> extract_query s | _ \<Rightarrow> Inl AttributeError)"

text \<open>Lines 171 to 198: the \<^verbatim>\<open>try\<close> statement around the invocation.\<close>

definition timeout_err :: string where
  "timeout_err = ''QUERY GENERATION TIMEOUT''"

definition attempt :: "env \<Rightarrow> generator \<Rightarrow> json timed_run \<Rightarrow> generator \<times> string list \<times> exc option" where
  "attempt E self r =
     (case func_timeout (timeout self) r of
        Ended (Inr results) \<Rightarrow>
          (let self1 = self\<lparr>self_completion := Some results\<rparr>
           in case query_of results of
                Inr q \<Rightarrow> (self1\<lparr>self_query := q, self_reason := ''-''\<rparr>, [], None)
              | Inl e \<Rightarrow> on_exception E self1 e)
      | FunctionTimedOut \<Rightarrow>
          (self\<lparr>self_err := timeout_err\<rparr>,
           (if verbose self then [''generating query timed out''] else []), None)
      | Ended (Inl e) \<Rightarrow> on_exception E self e)"

text \<open>Lines 200 to 203.\<close>

definition tokens_of :: "env \<Rightarrow> generator \<Rightarrow> package \<Rightarrow> exc + nat" where
  "tokens_of E self package =
     (case package of
        Prompt prompt \<Rightarrow> count_tokens (encoding_for_model E) (model self) [] prompt
      | Messages messages \<Rightarrow> count_tokens (encoding_for_model E) (model self) messages '''')"

text \<open>Lines 136 to 138.\<close>

definition reset :: "generator \<Rightarrow> generator" where
  "reset self = self\<lparr>self_err := '''', self_query := '''', self_reason := ''''\<rparr>"

text \<open>
  The whole method. An exception that no handler catches ends the call: \<open>outcome\<close> is
  then \<open>Inl\<close>. The new \<^verbatim>\<open>self\<close> is returned beside the run. The field
  \<open>calls\<close> lists the calls of the invoker run to its end: after a timeout it may hold a
  retry that was not yet sent when the wait was given up.
\<close>

definition generate_query :: "env \<Rightarrow> generator \<Rightarrow> string \<Rightarrow> generator \<times> result run" where
  "generate_query E self question =
     (let self1 = reset self
      in case read_file E (prompt_file self1) of
           Inl e \<Rightarrow> (self1, \<lparr>outcome = Inl e, calls = [], printed = []\<rparr>)
         | Inr chat_prompt \<Rightarrow>
             (case build_package E self1 question chat_prompt of
                Inl e \<Rightarrow> (self1, \<lparr>outcome = Inl e, calls = [], printed = []\<rparr>)
              | Inr package \<Rightarrow>
                  (let r = invoke (function_to_run self1) E self1 package;
                       (self2, out, raised) = attempt E self1 r
                   in case raised of
                        Some e \<Rightarrow>
                          (self2, \<lparr>outcome = Inl e, calls = calls r, printed = printed r @ out\<rparr>)
                      | None \<Rightarrow>
                          (self2,
                           \<lparr>outcome =
                              and_then (tokens_of E self2 package) (\<lambda>n.
                                Inr \<lparr>query = self_query self2, reason = self_reason self2,
                                     err = self_err self2, tokens_used = n\<rparr>),
                            calls = calls r, printed = printed r @ out\<rparr>))))"

section \<open>A concrete environment\<close>

text \<open>
  An environment to run the model on. The completion service follows a script: the
  \<open>n\<close>-th call takes the \<open>n\<close>-th entry, its duration and either the exception to raise
  or the text to generate, which is wrapped in a completion object of the shape of the
  class that was called. The tokenizer knows the three models of the class docstring and
  gives one token per character. The templates have no braces, so that
  \<^verbatim>\<open>str.format\<close> returns them as they are.
\<close>

definition chat_reply :: "string \<Rightarrow> json" where
  "chat_reply text =
     JDict [(''choices'',
             JList [JDict [(''message'',
                            JDict [(''role'', JStr ''assistant''), (''content'', JStr text)])]])]"

definition text_reply :: "string \<Rightarrow> json" where
  "text_reply text = JDict [(''choices'', JList [JDict [(''text'', JStr text)]])]"

definition scripted :: "(nat \<times> (exc + string)) list \<Rightarrow> nat \<Rightarrow> request \<Rightarrow> nat \<times> (exc + json)" where
  "scripted script n req =
     (if n < length script then
        (case script ! n of
           (t, Inl e) \<Rightarrow> (t, Inl e)
         | (t, Inr text) \<Rightarrow>
             (t, Inr (case endpoint req of
                        ChatCompletion \<Rightarrow> chat_reply text
                      | Completion \<Rightarrow> text_reply text)))
      else (0, Inl (OtherException ''APIConnectionError'' ''no reply'')))"

fun class_name :: "exc \<Rightarrow> string" where
  "class_name (RateLimitError m) = ''RateLimitError''"
| "class_name (ServiceUnavailableError m) = ''ServiceUnavailableError''"
| "class_name (KeyError k) = ''KeyError''"
| "class_name IndexError = ''IndexError''"
| "class_name TypeError = ''TypeError''"
| "class_name AttributeError = ''AttributeError''"
| "class_name ValueError = ''ValueError''"
| "class_name (OtherException c m) = c"

fun message_of :: "exc \<Rightarrow> string" where
  "message_of (RateLimitError m) = m"
| "message_of (ServiceUnavailableError m) = m"
| "message_of (KeyError (JStr k)) = k"
| "message_of (OtherException c m) = m"
| "message_of e = ''''"

definition example_files :: "(string \<times> string) list" where
  "example_files =
     [(''prompt.md'', ''You write SQL.### Input:How many users?### Response:The query:''),
      (''no_response.md'', ''You write SQL.### Input:How many users?''),
      (''legacy.md'', ''Write SQL. How many users?'')]"

definition example_env :: "(nat \<times> (exc + string)) list \<Rightarrow> env" where
  "example_env script =
     \<lparr>read_file = (\<lambda>path. case map_of example_files path of
                              None \<Rightarrow> Inl (OtherException ''FileNotFoundError'' path)
                            | Some text \<Rightarrow> Inr text),
      prune_metadata_str = (\<lambda>question db. Inr ''users(id, name)''),
      format = (\<lambda>template user_question table_metadata_string.
                  if CHR 0x7B \<in> set template \<or> CHR 0x7D \<in> set template then Inl ValueError
                  else Inr template),
      create = scripted script,
      encoding_for_model = (\<lambda>mdl.
         if mdl \<in> set [''gpt-3.5-turbo-0613'', ''gpt-4-0613'', ''text-davinci-003'']
         then Inr (\<lambda>text. Inr (map of_char text))
         else Inl (KeyError (JStr mdl))),
      type_repr = class_name,
      exc_str = message_of,
      value_str = (\<lambda>v. ''?'')\<rparr>"

definition chat_generator :: generator where
  "chat_generator =
     \<lparr>db_name = ''shop'', model = ''gpt-4-0613'', prompt_file = ''prompt.md'', timeout = 10,
      verbose = False, self_err = '''', self_query = '''', self_reason = '''',
      self_completion = None\<rparr>"

definition legacy_generator :: generator where
  "legacy_generator = chat_generator\<lparr>model := ''text-davinci-003'', prompt_file := ''legacy.md''\<rparr>"

section \<open>Properties of \<^verbatim>\<open>str.split\<close> and of the extraction\<close>

lemma find_str_None_iff: "sep \<noteq> [] \<Longrightarrow> find_str sep s = None \<longleftrightarrow> \<not> sublist sep s"
  by (induction s) (auto simp: sublist_Cons_right)

lemma split_from_not_Nil: "split_from sep s \<noteq> []"
  by (subst split_from.simps) (simp split: option.split)

lemma split_from_absent:
  assumes "\<not> sublist sep s"
  shows "split_from sep s = [s]"
proof (cases "sep = []")
  case True
  then show ?thesis by (subst split_from.simps) simp
next
  case False
  with assms have "find_str sep s = None"
    by (simp add: find_str_None_iff)
  then show ?thesis by (subst split_from.simps) simp
qed

text \<open>
  The last piece is what is left when no occurrence of the separator is found any more,
  so it holds none.
\<close>

lemma last_split_from_clean:
  "sep \<noteq> [] \<Longrightarrow> \<not> sublist sep (last (split_from sep s))"
proof (induction sep s rule: split_from.induct)
  case (1 sep s)
  show ?case
  proof (cases "find_str sep s")
    case None
    with "1.prems" have "\<not> sublist sep s"
      by (simp add: find_str_None_iff)
    then show ?thesis
      by (simp add: split_from_absent)
  next
    case (Some i)
    with "1.prems" "1.IH" show ?thesis
      by (subst split_from.simps) (simp add: split_from_not_Nil)
  qed
qed

lemma getitem_last: "xs \<noteq> [] \<Longrightarrow> getitem xs (- 1) = Inr (last xs)"
  by (cases xs rule: rev_cases) (simp_all add: getitem_def nat_add_distrib)

lemma extract_query_last: "extract_query s = Inr (last (split_from sql_fence s))"
  by (simp add: extract_query_def split_def and_then_def sql_fence_def getitem_last
      split_from_not_Nil)

lemma extract_query_example:
  "extract_query ''blah ```sql SELECT 1 ```'' = Inr '' SELECT 1 ```''"
  by (simp add: extract_query_def split_def and_then_def sql_fence_def getitem_def
      split_from.simps)

text \<open>
  Claim C3, as stated: on the raw text \<^verbatim>\<open>blah ```sql SELECT 1 ```\<close> the extractor
  returns \<^verbatim>\<open>" SELECT 1 "\<close>. It does not: the text is cut at \<^verbatim>\<open>```sql\<close> only,
  and the closing fence stays in the last piece.
\<close>

theorem C3_example_counterexample:
  "extract_query ''blah ```sql SELECT 1 ```'' \<noteq> Inr '' SELECT 1 ''"
  by (simp add: extract_query_example)

text \<open>
  Claim C3, amended: on the raw text \<^verbatim>\<open>blah ```sql SELECT 1 ```\<close> the extractor
  returns \<^verbatim>\<open>" SELECT 1 ```"\<close>, the piece after the last \<^verbatim>\<open>```sql\<close> marker with
  the closing fence still in it; and a raw text in which \<^verbatim>\<open>```sql\<close> does not occur
  is returned whole and unchanged.
\<close>

theorem C3_extract_query:
  "extract_query ''blah ```sql SELECT 1 ```'' = Inr '' SELECT 1 ```'' \<and>
   (\<not> sublist sql_fence s \<longrightarrow> extract_query s = Inr s)"
proof (intro conjI impI)
  show "extract_query ''blah ```sql SELECT 1 ```'' = Inr '' SELECT 1 ```''"
    by (rule extract_query_example)
next
  assume "\<not> sublist sql_fence s"
  then show "extract_query s = Inr s"
    by (simp add: extract_query_last split_from_absent)
qed

theorem C3_extract_query_witness:
  "\<not> sublist sql_fence ''SELECT 2'' \<and> extract_query ''SELECT 2'' = Inr ''SELECT 2''"
proof -
  have absent: "\<not> sublist sql_fence ''SELECT 2''"
    by (simp add: sql_fence_def sublist_Cons_right)
  from C3_extract_query [of "''SELECT 2''"] absent
  have "extract_query ''SELECT 2'' = Inr ''SELECT 2''"
    by blast
  with absent show ?thesis by blast
qed

section \<open>Properties of the completion invokers\<close>

lemma and_then_simps [simp]:
  "and_then (Inl e) f = Inl e"
  "and_then (Inr v) f = f v"
  by (simp_all add: and_then_def)

text \<open>The two invokers with the \<^verbatim>\<open>let\<close> bindings expanded.\<close>

lemma get_chat_completion_unfold:
  "get_chat_completion E self mdl messages max_toks temp stp bias =
     (case and_then (snd (create E 0 (api_request ChatCompletion mdl (Kw_messages messages) max_toks temp stp bias))) message_content of
        Inr generated_text \<Rightarrow>
          \<lparr>outcome = Inr generated_text,
           calls = [api_request ChatCompletion mdl (Kw_messages messages) max_toks temp stp bias],
           printed = [],
           elapsed = fst (create E 0 (api_request ChatCompletion mdl (Kw_messages messages) max_toks temp stp bias))\<rparr>
      | Inl e \<Rightarrow>
          if is_overloaded e then
            \<lparr>outcome = and_then (snd (create E 1 (api_request ChatCompletion mdl (Kw_messages messages) max_toks temp stp bias))) message_content,
             calls = [api_request ChatCompletion mdl (Kw_messages messages) max_toks temp stp bias,
                      api_request ChatCompletion mdl (Kw_messages messages) max_toks temp stp bias],
             printed = (if verbose self then [overloaded_line] else []),
             elapsed = fst (create E 0 (api_request ChatCompletion mdl (Kw_messages messages) max_toks temp stp bias)) + 5000 +
                       fst (create E 1 (api_request ChatCompletion mdl (Kw_messages messages) max_toks temp stp bias))\<rparr>
          else
            \<lparr>outcome = Inr (JStr ''''),
             calls = [api_request ChatCompletion mdl (Kw_messages messages) max_toks temp stp bias],
             printed = (if verbose self then [type_repr E e @ '' '' @ exc_str E e] else []),
             elapsed = fst (create E 0 (api_request ChatCompletion mdl (Kw_messages messages) max_toks temp stp bias))\<rparr>)"
  by (simp only: get_chat_completion_def Let_def case_prod_beta)

lemma get_nonchat_completion_unfold:
  "get_nonchat_completion E self mdl prompt max_toks temp stp bias =
     (case and_then (snd (create E 0 (api_request Completion mdl (Kw_prompt prompt) max_toks temp stp bias))) choice_text of
        Inr generated_text \<Rightarrow>
          \<lparr>outcome = Inr generated_text,
           calls = [api_request Completion mdl (Kw_prompt prompt) max_toks temp stp bias],
           printed = [],
           elapsed = fst (create E 0 (api_request Completion mdl (Kw_prompt prompt) max_toks temp stp bias))\<rparr>
      | Inl e \<Rightarrow>
          if is_overloaded e then
            \<lparr>outcome = and_then (snd (create E 1 (api_request ChatCompletion mdl (Kw_prompt prompt) max_toks temp stp bias))) choice_text,
             calls = [api_request Completion mdl (Kw_prompt prompt) max_toks temp stp bias,
                      api_request ChatCompletion mdl (Kw_prompt prompt) max_toks temp stp bias],
             printed = (if verbose self then [overloaded_line] else []),
             elapsed = fst (create E 0 (api_request Completion mdl (Kw_prompt prompt) max_toks temp stp bias)) + 5000 +
                       fst (create E 1 (api_request ChatCompletion mdl (Kw_prompt prompt) max_toks temp stp bias))\<rparr>
          else
            \<lparr>outcome = Inr (JStr ''''),
             calls = [api_request Completion mdl (Kw_prompt prompt) max_toks temp stp bias],
             printed = (if verbose self then [type_repr E e @ '' '' @ exc_str E e] else []),
             elapsed = fst (create E 0 (api_request Completion mdl (Kw_prompt prompt) max_toks temp stp bias))\<rparr>)"
  by (simp only: get_nonchat_completion_def Let_def case_prod_beta)

lemma getitem_key_not_overloaded: "getitem_key v k = Inl e \<Longrightarrow> \<not> is_overloaded e"
  by (cases v) (auto split: option.splits)

lemma getitem_not_overloaded: "getitem xs i = Inl e \<Longrightarrow> \<not> is_overloaded e"
  by (auto simp: getitem_def split: if_splits)

lemma getitem_index_not_overloaded: "getitem_index v i = Inl e \<Longrightarrow> \<not> is_overloaded e"
  by (cases v) (auto simp: and_then_def split: sum.splits dest: getitem_not_overloaded)

lemma message_content_not_overloaded: "message_content c = Inl e \<Longrightarrow> \<not> is_overloaded e"
  by (auto simp: message_content_def and_then_def split: sum.splits
      dest: getitem_key_not_overloaded getitem_index_not_overloaded)

lemma choice_text_not_overloaded: "choice_text c = Inl e \<Longrightarrow> \<not> is_overloaded e"
  by (auto simp: choice_text_def and_then_def split: sum.splits
      dest: getitem_key_not_overloaded getitem_index_not_overloaded)

lemma overloaded_from_create:
  assumes "and_then reply content = Inl e" and "is_overloaded e"
      and "\<And>c e. content c = Inl e \<Longrightarrow> \<not> is_overloaded e"
  shows "reply = Inl e"
  using assms by (cases reply) auto

lemmas example_service_defs =
  example_env_def scripted_def chat_reply_def text_reply_def message_content_def
  choice_text_def getitem_def

subsection \<open>The retry\<close>

text \<open>
  In the chat invoker the call of the retry handler is the first call again, and its
  reply is indexed the same way.
\<close>

lemma chat_retry_transparent:
  assumes "snd (create E 0 (api_request ChatCompletion mdl (Kw_messages messages) max_toks temp stp bias)) = Inl e"
      and "is_overloaded e"
  shows "outcome (get_chat_completion E self mdl messages max_toks temp stp bias) =
           and_then (snd (create E 1 (api_request ChatCompletion mdl (Kw_messages messages) max_toks temp stp bias))) message_content"
    and "calls (get_chat_completion E self mdl messages max_toks temp stp bias) =
           [api_request ChatCompletion mdl (Kw_messages messages) max_toks temp stp bias,
            api_request ChatCompletion mdl (Kw_messages messages) max_toks temp stp bias]"
  using assms by (simp_all add: get_chat_completion_unfold)

text \<open>In the legacy invoker the retry goes to the other class, whatever the service does.\<close>

lemma nonchat_retry_endpoint:
  assumes "snd (create E 0 (api_request Completion mdl (Kw_prompt prompt) max_toks temp stp bias)) = Inl e"
      and "is_overloaded e"
  shows "map endpoint (calls (get_nonchat_completion E self mdl prompt max_toks temp stp bias)) =
           [Completion, ChatCompletion]"
  using assms by (simp add: get_nonchat_completion_unfold)

text \<open>
  Claim C1: for both invokers, when the first call fails with a transient overload and
  the retried call succeeds, the retry has the same parameters and goes through the same
  invocation variant, and the generated text is the one a first-attempt success gives.
  The legacy invoker does not do that. Run on a service that is overloaded once and then
  generates \<^verbatim>\<open>SELECT 1\<close>: the first call is \<^verbatim>\<open>Completion.create\<close>, the retry is
  \<^verbatim>\<open>ChatCompletion.create\<close>, the reply of the chat class has no \<^verbatim>\<open>text\<close> key,
  and the invoker raises \<^verbatim>\<open>KeyError\<close>; a first-attempt success returns
  \<^verbatim>\<open>SELECT 1\<close>.
\<close>

theorem C1_nonchat_retry_other_endpoint:
  "get_nonchat_completion
     (example_env [(100, Inl (RateLimitError ''busy'')), (100, Inr ''SELECT 1'')])
     legacy_generator ''text-davinci-003'' (Prompt ''Write SQL'') 600 0 [''```''] [] =
   \<lparr>outcome = Inl (KeyError (JStr ''text'')),
    calls = [api_request Completion ''text-davinci-003'' (Kw_prompt (Prompt ''Write SQL''))
               600 0 [''```''] [],
             api_request ChatCompletion ''text-davinci-003'' (Kw_prompt (Prompt ''Write SQL''))
               600 0 [''```''] []],
    printed = [], elapsed = 5200\<rparr> \<and>
   outcome (get_nonchat_completion (example_env [(100, Inr ''SELECT 1'')])
     legacy_generator ''text-davinci-003'' (Prompt ''Write SQL'') 600 0 [''```''] []) =
   Inr (JStr ''SELECT 1'')"
  by (simp add: get_nonchat_completion_unfold example_service_defs legacy_generator_def
      chat_generator_def)

subsection \<open>Which exceptions leave an invoker\<close>

text \<open>
  Claim C2, as stated: an exception that is not a transient overload is swallowed also
  when the retried attempt raises it, and the invoker never raises. It does raise: the
  retry runs inside the first handler, and the second handler does not cover it.
\<close>

theorem C2_retry_raises_counterexample:
  "\<not> is_overloaded (OtherException ''APIError'' ''boom'') \<and>
   outcome (get_chat_completion
     (example_env [(100, Inl (RateLimitError ''busy'')),
                   (100, Inl (OtherException ''APIError'' ''boom''))])
     chat_generator ''gpt-4-0613'' (Messages []) 600 0 [''```''] []) =
   Inl (OtherException ''APIError'' ''boom'')"
  by (simp add: get_chat_completion_unfold example_service_defs)

text \<open>
  Claim C2, amended: for every exception raised by the first completion call that is not
  a transient overload, the invoker (chat or legacy) swallows it, makes no second call and
  returns the empty text; and an invoker raises to its caller only when the first call
  failed with a transient overload and the retried attempt raised.
\<close>

theorem C2_first_attempt_swallowed:
  "(snd (create E 0 (api_request ChatCompletion mdl (Kw_messages messages) max_toks temp stp bias)) = Inl e \<and>
      \<not> is_overloaded e \<longrightarrow>
      outcome (get_chat_completion E self mdl messages max_toks temp stp bias) = Inr (JStr '''') \<and>
      length (calls (get_chat_completion E self mdl messages max_toks temp stp bias)) = 1) \<and>
   (snd (create E 0 (api_request Completion mdl (Kw_prompt prompt) max_toks temp stp bias)) = Inl e \<and>
      \<not> is_overloaded e \<longrightarrow>
      outcome (get_nonchat_completion E self mdl prompt max_toks temp stp bias) = Inr (JStr '''') \<and>
      length (calls (get_nonchat_completion E self mdl prompt max_toks temp stp bias)) = 1) \<and>
   (outcome (get_chat_completion E self mdl messages max_toks temp stp bias) = Inl e' \<longrightarrow>
      (\<exists>e0. snd (create E 0 (api_request ChatCompletion mdl (Kw_messages messages) max_toks temp stp bias)) = Inl e0 \<and>
            is_overloaded e0) \<and>
      and_then (snd (create E 1 (api_request ChatCompletion mdl (Kw_messages messages) max_toks temp stp bias)))
        message_content = Inl e') \<and>
   (outcome (get_nonchat_completion E self mdl prompt max_toks temp stp bias) = Inl e' \<longrightarrow>
      (\<exists>e0. snd (create E 0 (api_request Completion mdl (Kw_prompt prompt) max_toks temp stp bias)) = Inl e0 \<and>
            is_overloaded e0) \<and>
      (\<exists>first retry.
         calls (get_nonchat_completion E self mdl prompt max_toks temp stp bias) = [first, retry] \<and>
         and_then (snd (create E 1 retry)) choice_text = Inl e'))"
proof (intro conjI impI)
  assume "snd (create E 0 (api_request ChatCompletion mdl (Kw_messages messages) max_toks temp stp bias)) = Inl e \<and> \<not> is_overloaded e"
  then show "outcome (get_chat_completion E self mdl messages max_toks temp stp bias) = Inr (JStr '''')"
    and "length (calls (get_chat_completion E self mdl messages max_toks temp stp bias)) = 1"
    by (simp_all add: get_chat_completion_unfold)
next
  assume "snd (create E 0 (api_request Completion mdl (Kw_prompt prompt) max_toks temp stp bias)) = Inl e \<and> \<not> is_overloaded e"
  then show "outcome (get_nonchat_completion E self mdl prompt max_toks temp stp bias) = Inr (JStr '''')"
    and "length (calls (get_nonchat_completion E self mdl prompt max_toks temp stp bias)) = 1"
    by (simp_all add: get_nonchat_completion_unfold)
next
  assume raised: "outcome (get_chat_completion E self mdl messages max_toks temp stp bias) = Inl e'"
  then obtain e0 where
    first: "and_then (snd (create E 0 (api_request ChatCompletion mdl (Kw_messages messages) max_toks temp stp bias))) message_content = Inl e0"
    and over: "is_overloaded e0"
    by (auto simp: get_chat_completion_unfold split: sum.splits if_splits)
  from first over have "snd (create E 0 (api_request ChatCompletion mdl (Kw_messages messages) max_toks temp stp bias)) = Inl e0"
    by (rule overloaded_from_create) (rule message_content_not_overloaded)
  with over show "\<exists>e0. snd (create E 0 (api_request ChatCompletion mdl (Kw_messages messages) max_toks temp stp bias)) = Inl e0 \<and> is_overloaded e0"
    by blast
  from raised first over
  show "and_then (snd (create E 1 (api_request ChatCompletion mdl (Kw_messages messages) max_toks temp stp bias))) message_content = Inl e'"
    by (simp add: get_chat_completion_unfold)
next
  assume raised: "outcome (get_nonchat_completion E self mdl prompt max_toks temp stp bias) = Inl e'"
  then obtain e0 where
    first: "and_then (snd (create E 0 (api_request Completion mdl (Kw_prompt prompt) max_toks temp stp bias))) choice_text = Inl e0"
    and over: "is_overloaded e0"
    by (auto simp: get_nonchat_completion_unfold split: sum.splits if_splits)
  from first over have "snd (create E 0 (api_request Completion mdl (Kw_prompt prompt) max_toks temp stp bias)) = Inl e0"
    by (rule overloaded_from_create) (rule choice_text_not_overloaded)
  with over show "\<exists>e0. snd (create E 0 (api_request Completion mdl (Kw_prompt prompt) max_toks temp stp bias)) = Inl e0 \<and> is_overloaded e0"
    by blast
  from raised first over
  show "\<exists>first retry.
         calls (get_nonchat_completion E self mdl prompt max_toks temp stp bias) = [first, retry] \<and>
         and_then (snd (create E 1 retry)) choice_text = Inl e'"
    by (simp add: get_nonchat_completion_unfold)
qed

theorem C2_first_attempt_swallowed_witness:
  "snd (create (example_env [(100, Inl (OtherException ''APIError'' ''boom''))]) 0
      (api_request ChatCompletion ''gpt-4-0613'' (Kw_messages (Messages [])) 600 0 [''```''] [])) =
     Inl (OtherException ''APIError'' ''boom'') \<and>
   \<not> is_overloaded (OtherException ''APIError'' ''boom'') \<and>
   outcome (get_chat_completion (example_env [(100, Inl (OtherException ''APIError'' ''boom''))])
     chat_generator ''gpt-4-0613'' (Messages []) 600 0 [''```''] []) = Inr (JStr '''')"
proof -
  let ?E = "example_env [(100, Inl (OtherException ''APIError'' ''boom''))]"
  have raised: "snd (create ?E 0
      (api_request ChatCompletion ''gpt-4-0613'' (Kw_messages (Messages [])) 600 0 [''```''] [])) =
     Inl (OtherException ''APIError'' ''boom'') \<and>
     \<not> is_overloaded (OtherException ''APIError'' ''boom'')"
    by (simp add: example_env_def scripted_def)
  from C2_first_attempt_swallowed [of ?E "''gpt-4-0613''" "Messages []" 600 0 "[''```'']" "[]"
      "OtherException ''APIError'' ''boom''" chat_generator] raised
  have "outcome (get_chat_completion ?E chat_generator ''gpt-4-0613'' (Messages []) 600 0 [''```''] []) =
      Inr (JStr '''')"
    by blast
  with raised show ?thesis by blast
qed

section \<open>Properties of the token count\<close>

lemma count_items_sum:
  assumes "\<forall>kv\<in>set m. encode (snd kv) = Inr (enc (snd kv))"
  shows "count_items encode m n = Inr (n + (\<Sum>kv\<leftarrow>m. length (enc (snd kv))))"
  using assms by (induction m arbitrary: n) auto

lemma count_messages_sum:
  assumes "\<forall>m\<in>set ms. \<forall>kv\<in>set m. encode (snd kv) = Inr (enc (snd kv))"
  shows "count_messages encode ms n = Inr (n + chat_token_count_spec enc ms)"
  using assms
proof (induction ms arbitrary: n)
  case Nil
  then show ?case by (simp add: chat_token_count_spec_def)
next
  case (Cons m ms)
  then have "count_items encode m n = Inr (n + (\<Sum>kv\<leftarrow>m. length (enc (snd kv))))"
    by (simp add: count_items_sum)
  moreover from Cons have "count_messages encode ms (n + (\<Sum>kv\<leftarrow>m. length (enc (snd kv)))) =
      Inr (n + (\<Sum>kv\<leftarrow>m. length (enc (snd kv))) + chat_token_count_spec enc ms)"
    by simp
  ultimately show ?case
    by (simp add: chat_token_count_spec_def)
qed

text \<open>
  Claim C6: the token count is a function of the model identifier and of the message list
  (chat mode) or the prompt (legacy mode) alone. With the encoder of the model at hand,
  in chat mode it is the sum of the encoded lengths of every value of every message, role
  tags included, whenever the encoder accepts these values; for the model
  \<^verbatim>\<open>text-davinci-003\<close> it is the encoded length of the prompt. The prompt plays no
  part in chat mode, and the messages none in legacy mode. Being a function of its
  arguments, it gives the same count for the same inputs.
\<close>

theorem C6_count_tokens:
  "(enc_for mdl = Inr tokenizer \<and> mdl \<noteq> legacy_model \<and>
      (\<forall>m\<in>set messages. \<forall>kv\<in>set m. tokenizer (snd kv) = Inr (enc (snd kv))) \<longrightarrow>
      count_tokens enc_for mdl messages prompt = Inr (chat_token_count_spec enc messages)) \<and>
   (enc_for mdl = Inr tokenizer \<and> mdl = legacy_model \<and> tokenizer prompt = Inr (enc prompt) \<longrightarrow>
      count_tokens enc_for mdl messages prompt = Inr (legacy_token_count_spec enc prompt)) \<and>
   (mdl \<noteq> legacy_model \<longrightarrow>
      count_tokens enc_for mdl messages prompt = count_tokens enc_for mdl messages prompt') \<and>
   (mdl = legacy_model \<longrightarrow>
      count_tokens enc_for mdl messages prompt = count_tokens enc_for mdl messages' prompt)"
proof (intro conjI impI)
  assume "enc_for mdl = Inr tokenizer \<and> mdl \<noteq> legacy_model \<and>
      (\<forall>m\<in>set messages. \<forall>kv\<in>set m. tokenizer (snd kv) = Inr (enc (snd kv)))"
  then show "count_tokens enc_for mdl messages prompt = Inr (chat_token_count_spec enc messages)"
    using count_messages_sum [of messages tokenizer enc 0]
    by (simp add: count_tokens_def)
next
  assume "enc_for mdl = Inr tokenizer \<and> mdl = legacy_model \<and> tokenizer prompt = Inr (enc prompt)"
  then show "count_tokens enc_for mdl messages prompt = Inr (legacy_token_count_spec enc prompt)"
    by (auto simp: count_tokens_def legacy_token_count_spec_def)
next
  assume "mdl \<noteq> legacy_model"
  then show "count_tokens enc_for mdl messages prompt = count_tokens enc_for mdl messages prompt'"
    by (simp add: count_tokens_def split: sum.splits)
next
  assume "mdl = legacy_model"
  then show "count_tokens enc_for mdl messages prompt = count_tokens enc_for mdl messages' prompt"
    by (simp add: count_tokens_def split: sum.splits)
qed

theorem C6_count_tokens_witness:
  "count_tokens (encoding_for_model (example_env [])) ''gpt-4-0613''
     [[(''role'', ''system''), (''content'', ''You write SQL.'')],
      [(''role'', ''user''), (''content'', ''How many users?'')],
      [(''role'', ''assistant''), (''content'', ''The query:'')]] '''' = Inr 58 \<and>
   count_tokens (encoding_for_model (example_env [])) ''text-davinci-003'' []
     ''Write SQL. How many users?'' = Inr 26"
proof -
  let ?tk = "\<lambda>text. Inr (map of_char text) :: exc + nat list"
  let ?ms = "[[(''role'', ''system''), (''content'', ''You write SQL.'')],
      [(''role'', ''user''), (''content'', ''How many users?'')],
      [(''role'', ''assistant''), (''content'', ''The query:'')]]"
  have chat: "encoding_for_model (example_env []) ''gpt-4-0613'' = Inr ?tk"
    and legacy: "encoding_for_model (example_env []) ''text-davinci-003'' = Inr ?tk"
    by (simp_all add: example_env_def)
  have not_legacy: "''gpt-4-0613'' \<noteq> legacy_model" and is_legacy: "''text-davinci-003'' = legacy_model"
    by (simp_all add: legacy_model_def)
  have all: "\<forall>m\<in>set ?ms. \<forall>kv\<in>set m. ?tk (snd kv) = Inr (map of_char (snd kv))"
    by simp
  from C6_count_tokens [of "encoding_for_model (example_env [])" "''gpt-4-0613''" ?tk ?ms
      "map of_char" "''''"] chat not_legacy all
  have "count_tokens (encoding_for_model (example_env [])) ''gpt-4-0613'' ?ms '''' =
      Inr (chat_token_count_spec (map of_char) ?ms)"
    by blast
  moreover have "chat_token_count_spec (map of_char) ?ms = 58"
    by (simp add: chat_token_count_spec_def)
  moreover
  from C6_count_tokens [of "encoding_for_model (example_env [])" "''text-davinci-003''" ?tk "[]"
      "map of_char" "''Write SQL. How many users?''"] legacy is_legacy
  have "count_tokens (encoding_for_model (example_env [])) ''text-davinci-003'' []
      ''Write SQL. How many users?'' = Inr (legacy_token_count_spec (map of_char) ''Write SQL. How many users?'')"
    by blast
  moreover have "legacy_token_count_spec (map of_char) ''Write SQL. How many users?'' = 26"
    by (simp add: legacy_token_count_spec_def)
  ultimately show ?thesis by simp
qed

section \<open>Properties of \<^verbatim>\<open>generate_query\<close>\<close>

text \<open>
  Which attributes of \<^verbatim>\<open>self\<close> each part reads: the prompt assembly the model and
  the database name, the invocation the model and the verbosity, the token count the model.
  None reads the scratch attributes.
\<close>

lemma build_package_cong:
  "model s = model s' \<Longrightarrow> db_name s = db_name s' \<Longrightarrow>
   build_package E s question chat_prompt = build_package E s' question chat_prompt"
  by (simp add: build_package_def chat_messages_def legacy_prompt_def)

lemma invoke_cong:
  "model s = model s' \<Longrightarrow> verbose s = verbose s' \<Longrightarrow> invoke f E s package = invoke f E s' package"
  by (simp add: invoke_def get_chat_completion_unfold get_nonchat_completion_unfold
      split: invoker.splits sum.splits)

lemma tokens_of_cong:
  "model s = model s' \<Longrightarrow> tokens_of E s package = tokens_of E s' package"
  by (simp add: tokens_of_def split: package.splits)

lemma reset_fields [simp]:
  "model (reset self) = model self" "db_name (reset self) = db_name self"
  "verbose (reset self) = verbose self" "timeout (reset self) = timeout self"
  "prompt_file (reset self) = prompt_file self"
  "self_completion (reset self) = self_completion self"
  "self_err (reset self) = ''''" "self_query (reset self) = ''''" "self_reason (reset self) = ''''"
  by (simp_all add: reset_def)

lemma function_to_run_reset [simp]: "function_to_run (reset self) = function_to_run self"
  by (simp add: function_to_run_def)

lemma build_package_reset [simp]:
  "build_package E (reset self) question chat_prompt = build_package E self question chat_prompt"
  by (rule build_package_cong) simp_all

lemma invoke_reset [simp]: "invoke f E (reset self) package = invoke f E self package"
  by (rule invoke_cong) simp_all

lemma on_exception_model [simp]: "model (fst (on_exception E self e)) = model self"
  by (simp add: on_exception_def Let_def split: option.splits)

lemma attempt_model [simp]: "model (fst (attempt E self r)) = model self"
  by (simp add: attempt_def Let_def split: waited.splits sum.splits)

lemma tokens_of_attempt [simp]:
  "tokens_of E (fst (attempt E (reset self) r)) package = tokens_of E self package"
  by (rule tokens_of_cong) simp

text \<open>The value and the service calls of \<^verbatim>\<open>generate_query\<close>, stage by stage.\<close>

lemma generate_query_outcome:
  "outcome (snd (generate_query E self question)) =
     (case read_file E (prompt_file self) of
        Inl e \<Rightarrow> Inl e
      | Inr chat_prompt \<Rightarrow>
          (case build_package E self question chat_prompt of
             Inl e \<Rightarrow> Inl e
           | Inr package \<Rightarrow>
               (case snd (snd (attempt E (reset self)
                        (invoke (function_to_run self) E self package))) of
                  Some e \<Rightarrow> Inl e
                | None \<Rightarrow>
                    and_then (tokens_of E self package)
                      (\<lambda>n. Inr \<lparr>query = self_query (fst (attempt E (reset self)
                                         (invoke (function_to_run self) E self package))),
                                reason = self_reason (fst (attempt E (reset self)
                                         (invoke (function_to_run self) E self package))),
                                err = self_err (fst (attempt E (reset self)
                                         (invoke (function_to_run self) E self package))),
                                tokens_used = n\<rparr>))))"
  by (simp add: generate_query_def Let_def case_prod_beta split: sum.splits option.splits)

lemma generate_query_calls:
  "calls (snd (generate_query E self question)) =
     (case read_file E (prompt_file self) of
        Inl e \<Rightarrow> []
      | Inr chat_prompt \<Rightarrow>
          (case build_package E self question chat_prompt of
             Inl e \<Rightarrow> []
           | Inr package \<Rightarrow> calls (invoke (function_to_run self) E self package)))"
  by (simp add: generate_query_def Let_def case_prod_beta split: sum.splits option.splits)

text \<open>The equations that run the model on the concrete environment.\<close>

lemmas example_run_defs =
  generate_query_def reset_def build_package_def chat_messages_def legacy_prompt_def
  function_to_run_def invoke_def attempt_def func_timeout_def on_exception_def query_of_def
  extract_query_def split_def split_from.simps tokens_of_def count_tokens_def legacy_model_def
  sql_fence_def timeout_err_def error_text_def py_str_def
  get_chat_completion_unfold get_nonchat_completion_unfold example_service_defs
  example_files_def chat_generator_def legacy_generator_def

subsection \<open>Timeout\<close>

lemma attempt_timed_out:
  assumes "1000 * timeout self < elapsed r"
  shows "attempt E self r =
    (self\<lparr>self_err := timeout_err\<rparr>, (if verbose self then [''generating query timed out''] else []), None)"
  using assms by (simp add: attempt_def func_timeout_def)

text \<open>
  Claim C5, as stated: whenever the completion invocation exceeds the configured deadline,
  \<^verbatim>\<open>generate_query\<close> returns a result whose \<^verbatim>\<open>err\<close> is
  \<^verbatim>\<open>QUERY GENERATION TIMEOUT\<close>. The token count of lines 200 to 203 comes after the
  \<^verbatim>\<open>try\<close> statement and before the \<^verbatim>\<open>return\<close>: with a model the tokenizer
  does not know, the invocation times out and \<^verbatim>\<open>generate_query\<close> raises the
  tokenizer's \<^verbatim>\<open>KeyError\<close> instead of returning.
\<close>

theorem C5_unknown_model_counterexample:
  "build_package (example_env [(11000, Inr ''SELECT 1'')]) (chat_generator\<lparr>model := ''gpt-5''\<rparr>)
     ''How many users?'' ''You write SQL.### Input:How many users?### Response:The query:'' =
     Inr (Messages [[(''role'', ''system''), (''content'', ''You write SQL.'')],
                    [(''role'', ''user''), (''content'', ''How many users?'')],
                    [(''role'', ''assistant''), (''content'', ''The query:'')]]) \<and>
   1000 * timeout (chat_generator\<lparr>model := ''gpt-5''\<rparr>) <
     elapsed (invoke (function_to_run (chat_generator\<lparr>model := ''gpt-5''\<rparr>))
       (example_env [(11000, Inr ''SELECT 1'')]) (chat_generator\<lparr>model := ''gpt-5''\<rparr>)
       (Messages [[(''role'', ''system''), (''content'', ''You write SQL.'')],
                  [(''role'', ''user''), (''content'', ''How many users?'')],
                  [(''role'', ''assistant''), (''content'', ''The query:'')]])) \<and>
   outcome (snd (generate_query (example_env [(11000, Inr ''SELECT 1'')])
     (chat_generator\<lparr>model := ''gpt-5''\<rparr>) ''How many users?'')) = Inl (KeyError (JStr ''gpt-5''))"
  by (simp add: example_run_defs)

text \<open>
  Claim C5, amended: whenever the completion invocation exceeds the configured deadline,
  \<^verbatim>\<open>generate_query\<close> goes on to count the tokens of the prompt that was sent; when
  the count succeeds it returns a result whose \<^verbatim>\<open>err\<close> is
  \<^verbatim>\<open>QUERY GENERATION TIMEOUT\<close> and whose \<^verbatim>\<open>query\<close> and \<^verbatim>\<open>reason\<close>
  are empty, and when the count raises it raises that exception and returns nothing. An
  invocation exists once the template was read and the prompt assembled.
\<close>

theorem C5_timeout_result:
  assumes "read_file E (prompt_file self) = Inr chat_prompt"
      and "build_package E self question chat_prompt = Inr package"
      and "1000 * timeout self < elapsed (invoke (function_to_run self) E self package)"
  shows "outcome (snd (generate_query E self question)) =
           (case tokens_of E self package of
              Inl e \<Rightarrow> Inl e
            | Inr n \<Rightarrow> Inr \<lparr>query = '''', reason = '''', err = ''QUERY GENERATION TIMEOUT'',
                            tokens_used = n\<rparr>)"
proof -
  from assms(3)
  have "attempt E (reset self) (invoke (function_to_run self) E self package) =
      ((reset self)\<lparr>self_err := timeout_err\<rparr>,
       (if verbose self then [''generating query timed out''] else []), None)"
    using attempt_timed_out [of "reset self" "invoke (function_to_run self) E self package" E]
    by simp
  with assms show ?thesis
    by (simp add: generate_query_outcome timeout_err_def and_then_def)
qed

theorem C5_timeout_result_witness:
  "read_file (example_env [(100, Inl (RateLimitError ''busy'')), (6000, Inr ''SELECT 1'')])
     (prompt_file legacy_generator) = Inr ''Write SQL. How many users?'' \<and>
   build_package (example_env [(100, Inl (RateLimitError ''busy'')), (6000, Inr ''SELECT 1'')])
     legacy_generator ''How many users?'' ''Write SQL. How many users?'' =
     Inr (Prompt ''Write SQL. How many users?'') \<and>
   1000 * timeout legacy_generator <
     elapsed (invoke (function_to_run legacy_generator)
       (example_env [(100, Inl (RateLimitError ''busy'')), (6000, Inr ''SELECT 1'')])
       legacy_generator (Prompt ''Write SQL. How many users?'')) \<and>
   outcome (snd (generate_query
       (example_env [(100, Inl (RateLimitError ''busy'')), (6000, Inr ''SELECT 1'')])
       legacy_generator ''How many users?'')) =
     Inr \<lparr>query = '''', reason = '''', err = ''QUERY GENERATION TIMEOUT'', tokens_used = 26\<rparr>"
proof -
  let ?E = "example_env [(100, Inl (RateLimitError ''busy'')), (6000, Inr ''SELECT 1'')]"
  have template: "read_file ?E (prompt_file legacy_generator) = Inr ''Write SQL. How many users?''"
    by (simp add: example_env_def example_files_def legacy_generator_def chat_generator_def)
  have package: "build_package ?E legacy_generator ''How many users?''
      ''Write SQL. How many users?'' = Inr (Prompt ''Write SQL. How many users?'')"
    by (simp add: example_run_defs)
  have late: "1000 * timeout legacy_generator <
      elapsed (invoke (function_to_run legacy_generator) ?E legacy_generator
        (Prompt ''Write SQL. How many users?''))"
    by (simp add: example_run_defs)
  have tokens: "tokens_of ?E legacy_generator (Prompt ''Write SQL. How many users?'') = Inr 26"
    by (simp add: example_run_defs)
  from C5_timeout_result [OF template package late]
  have "outcome (snd (generate_query ?E legacy_generator ''How many users?'')) =
      Inr \<lparr>query = '''', reason = '''', err = ''QUERY GENERATION TIMEOUT'', tokens_used = 26\<rparr>"
    by (simp add: tokens)
  with template package late show ?thesis by blast
qed

subsection \<open>Prompt assembly and mode selection\<close>

lemma getitem_0: "xs \<noteq> [] \<Longrightarrow> getitem xs 0 = Inr (hd xs)"
  by (cases xs) (simp_all add: getitem_def)

lemma getitem_single_1: "getitem [x] 1 = Inl IndexError"
  by (simp add: getitem_def)

lemma getitem_raises_IndexError: "getitem xs i = Inl e \<Longrightarrow> e = IndexError"
  by (auto simp: getitem_def split: if_splits)

lemma split_ok: "sep \<noteq> [] \<Longrightarrow> split s sep = Inr (split_from sep s)"
  by (simp add: split_def)

lemma chat_messages_no_response:
  assumes "\<not> sublist ''### Response:'' chat_prompt"
  shows "chat_messages E self question chat_prompt = Inl IndexError"
proof -
  have whole: "split_from ''### Response:'' chat_prompt = [chat_prompt]"
    using assms by (rule split_from_absent)
  show ?thesis
  proof (cases "getitem (split_from ''### Input:'' chat_prompt) 1")
    case (Inl e)
    then have "e = IndexError" by (rule getitem_raises_IndexError)
    with Inl show ?thesis
      by (simp add: chat_messages_def split_ok getitem_0 split_from_not_Nil)
  next
    case (Inr after_input)
    then show ?thesis
      by (simp add: chat_messages_def split_ok getitem_0 split_from_not_Nil whole
          getitem_single_1)
  qed
qed

text \<open>
  Claim C7: in chat mode, for a template without the marker \<^verbatim>\<open>### Response:\<close>,
  \<^verbatim>\<open>generate_query\<close> raises the index fault of the split (the template-format
  error) and makes no call to the completion service.
\<close>

theorem C7_missing_response:
  assumes "model self \<noteq> legacy_model"
      and "read_file E (prompt_file self) = Inr chat_prompt"
      and "\<not> sublist ''### Response:'' chat_prompt"
  shows "outcome (snd (generate_query E self question)) = Inl IndexError \<and>
         calls (snd (generate_query E self question)) = []"
  using assms
  by (simp add: generate_query_outcome generate_query_calls build_package_def
      chat_messages_no_response)

theorem C7_missing_response_witness:
  "model (chat_generator\<lparr>prompt_file := ''no_response.md''\<rparr>) \<noteq> legacy_model \<and>
   read_file (example_env [(100, Inr ''SELECT 1'')])
     (prompt_file (chat_generator\<lparr>prompt_file := ''no_response.md''\<rparr>)) =
     Inr ''You write SQL.### Input:How many users?'' \<and>
   \<not> sublist ''### Response:'' ''You write SQL.### Input:How many users?'' \<and>
   outcome (snd (generate_query (example_env [(100, Inr ''SELECT 1'')])
     (chat_generator\<lparr>prompt_file := ''no_response.md''\<rparr>) ''How many users?'')) = Inl IndexError \<and>
   calls (snd (generate_query (example_env [(100, Inr ''SELECT 1'')])
     (chat_generator\<lparr>prompt_file := ''no_response.md''\<rparr>) ''How many users?'')) = []"
proof -
  let ?E = "example_env [(100, Inr ''SELECT 1'')]"
  let ?g = "chat_generator\<lparr>prompt_file := ''no_response.md''\<rparr>"
  have chat: "model ?g \<noteq> legacy_model"
    by (simp add: chat_generator_def legacy_model_def)
  have template: "read_file ?E (prompt_file ?g) = Inr ''You write SQL.### Input:How many users?''"
    by (simp add: example_env_def example_files_def)
  have absent: "\<not> sublist ''### Response:'' ''You write SQL.### Input:How many users?''"
    by (simp add: sublist_Cons_right)
  from C7_missing_response [OF chat template absent, of "''How many users?''"] chat template absent
  show ?thesis by blast
qed

lemma chat_messages_shape:
  assumes "chat_messages E self question chat_prompt = Inr messages"
  shows "\<exists>s u a. messages = [[(''role'', ''system''), (''content'', s)],
                              [(''role'', ''user''), (''content'', u)],
                              [(''role'', ''assistant''), (''content'', a)]]"
  using assms unfolding chat_messages_def and_then_def
  by (auto split: sum.splits)

lemma hd_calls_chat:
  "hd (calls (get_chat_completion E self mdl messages max_toks temp stp bias)) =
     api_request ChatCompletion mdl (Kw_messages messages) max_toks temp stp bias"
  by (simp add: get_chat_completion_unfold split: sum.splits)

lemma hd_calls_nonchat:
  "hd (calls (get_nonchat_completion E self mdl prompt max_toks temp stp bias)) =
     api_request Completion mdl (Kw_prompt prompt) max_toks temp stp bias"
  by (simp add: get_nonchat_completion_unfold split: sum.splits)

text \<open>
  Claim C8: the mode is decided by the model identifier alone, for every identifier. With
  \<^verbatim>\<open>text-davinci-003\<close> the package is a single prompt string and the invoker is
  \<^verbatim>\<open>get_nonchat_completion\<close>, whose first call is \<^verbatim>\<open>Completion.create\<close> with
  that prompt; with any other identifier the package is the list of three messages with the
  roles system, user and assistant, and the invoker is \<^verbatim>\<open>get_chat_completion\<close>,
  whose first call is \<^verbatim>\<open>ChatCompletion.create\<close> with these messages.
\<close>

theorem C8_mode_selection:
  "(model self = legacy_model \<longrightarrow>
      function_to_run self = Get_nonchat_completion \<and>
      (\<forall>package. build_package E self question chat_prompt = Inr package \<longrightarrow>
         (\<exists>prompt. package = Prompt prompt) \<and>
         hd (calls (invoke (function_to_run self) E self package)) =
           api_request Completion (model self) (Kw_prompt package) 400 0 [''```''] [])) \<and>
   (model self \<noteq> legacy_model \<longrightarrow>
      function_to_run self = Get_chat_completion \<and>
      (\<forall>package. build_package E self question chat_prompt = Inr package \<longrightarrow>
         (\<exists>s u a. package = Messages [[(''role'', ''system''), (''content'', s)],
                                       [(''role'', ''user''), (''content'', u)],
                                       [(''role'', ''assistant''), (''content'', a)]]) \<and>
         hd (calls (invoke (function_to_run self) E self package)) =
           api_request ChatCompletion (model self) (Kw_messages package) 400 0 [''```''] []))"
proof (intro conjI impI allI)
  assume "model self = legacy_model"
  then show "function_to_run self = Get_nonchat_completion"
    by (simp add: function_to_run_def)
next
  fix package
  assume "model self = legacy_model" and "build_package E self question chat_prompt = Inr package"
  then show "\<exists>prompt. package = Prompt prompt"
    by (auto simp: build_package_def and_then_def split: sum.splits)
next
  fix package
  assume "model self = legacy_model"
  then show "hd (calls (invoke (function_to_run self) E self package)) =
           api_request Completion (model self) (Kw_prompt package) 400 0 [''```''] []"
    by (simp add: function_to_run_def invoke_def hd_calls_nonchat)
next
  assume "model self \<noteq> legacy_model"
  then show "function_to_run self = Get_chat_completion"
    by (simp add: function_to_run_def)
next
  fix package
  assume "model self \<noteq> legacy_model" and "build_package E self question chat_prompt = Inr package"
  then obtain messages where "chat_messages E self question chat_prompt = Inr messages"
    and "package = Messages messages"
    by (auto simp: build_package_def and_then_def split: sum.splits)
  then show "\<exists>s u a. package = Messages [[(''role'', ''system''), (''content'', s)],
                                       [(''role'', ''user''), (''content'', u)],
                                       [(''role'', ''assistant''), (''content'', a)]]"
    using chat_messages_shape by blast
next
  fix package
  assume "model self \<noteq> legacy_model"
  then show "hd (calls (invoke (function_to_run self) E self package)) =
           api_request ChatCompletion (model self) (Kw_messages package) 400 0 [''```''] []"
    by (simp add: function_to_run_def invoke_def hd_calls_chat)
qed

theorem C8_mode_selection_witness:
  "model legacy_generator = legacy_model \<and>
   function_to_run legacy_generator = Get_nonchat_completion \<and>
   hd (calls (invoke (function_to_run legacy_generator) (example_env [(100, Inr ''SELECT 1'')])
        legacy_generator (Prompt ''Write SQL. How many users?''))) =
     api_request Completion (model legacy_generator)
       (Kw_prompt (Prompt ''Write SQL. How many users?'')) 400 0 [''```''] [] \<and>
   model chat_generator \<noteq> legacy_model \<and>
   function_to_run chat_generator = Get_chat_completion"
proof -
  let ?E = "example_env [(100, Inr ''SELECT 1'')]"
  have legacy: "model legacy_generator = legacy_model"
    by (simp add: legacy_generator_def legacy_model_def)
  have package: "build_package ?E legacy_generator ''How many users?''
      ''Write SQL. How many users?'' = Inr (Prompt ''Write SQL. How many users?'')"
    by (simp add: example_run_defs)
  have chat: "model chat_generator \<noteq> legacy_model"
    by (simp add: chat_generator_def legacy_model_def)
  from C8_mode_selection [of legacy_generator ?E "''How many users?''"
      "''Write SQL. How many users?''"] legacy package
  have "function_to_run legacy_generator = Get_nonchat_completion"
    and "hd (calls (invoke (function_to_run legacy_generator) ?E legacy_generator
          (Prompt ''Write SQL. How many users?''))) =
       api_request Completion (model legacy_generator)
         (Kw_prompt (Prompt ''Write SQL. How many users?'')) 400 0 [''```''] []"
    by blast+
  moreover
  from C8_mode_selection [of chat_generator ?E "''How many users?''" "''''"] chat
  have "function_to_run chat_generator = Get_chat_completion"
    by blast
  ultimately show ?thesis
    using legacy chat by blast
qed

subsection \<open>The fields of the result\<close>

lemma sql_fence_not_Nil: "sql_fence \<noteq> []"
  by (simp add: sql_fence_def)

lemma extract_query_clean: "extract_query s = Inr q \<Longrightarrow> \<not> sublist sql_fence q"
  using last_split_from_clean [of sql_fence s]
  by (simp add: extract_query_last sql_fence_def)

lemma query_of_clean: "query_of results = Inr q \<Longrightarrow> \<not> sublist sql_fence q"
  by (cases results) (simp_all add: query_of_def extract_query_clean)

lemma on_exception_fields:
  "self_query (fst (on_exception E self e)) = []"
  by (simp add: on_exception_def Let_def split: option.splits)

lemma attempt_query_clean:
  assumes "self_query self = []"
  shows "\<not> sublist sql_fence (self_query (fst (attempt E self r)))"
  using assms
  by (auto simp: attempt_def Let_def on_exception_fields sql_fence_not_Nil
      split: waited.splits sum.splits dest: query_of_clean)

lemma generate_query_returns:
  assumes "outcome (snd (generate_query E self question)) = Inr res"
  shows "\<exists>r. query res = self_query (fst (attempt E (reset self) r)) \<and>
             err res = self_err (fst (attempt E (reset self) r)) \<and>
             reason res = self_reason (fst (attempt E (reset self) r))"
  using assms unfolding generate_query_outcome and_then_def
  by (auto split: sum.splits option.splits)

lemma timeout_err_not_Nil: "timeout_err \<noteq> []"
  by (simp add: timeout_err_def)

lemma error_text_not_Nil: "error_text E e \<noteq> []"
  by (simp add: error_text_def)

lemma on_exception_err:
  assumes "snd (snd (on_exception E self e)) = None"
  shows "self_err (fst (on_exception E self e)) \<noteq> []"
  using assms
  by (simp add: on_exception_def Let_def error_text_not_Nil split: option.splits if_splits)

lemma query_of_JStr: "query_of results = Inr q \<Longrightarrow> \<exists>s. results = JStr s \<and> extract_query s = Inr q"
  by (cases results) (simp_all add: query_of_def)

text \<open>
  The \<^verbatim>\<open>try\<close> statement, started with empty \<^verbatim>\<open>query\<close> and \<^verbatim>\<open>err\<close>
  and ending without an exception of its own: the timeout and the error handler leave a
  non-empty \<^verbatim>\<open>err\<close>, the success branch leaves \<^verbatim>\<open>err\<close> empty and stores
  the extracted query.
\<close>

lemma attempt_exactly_one:
  assumes "self_query self = []" and "self_err self = []"
      and "snd (snd (attempt E self r)) = None"
  shows "(self_query (fst (attempt E self r)) \<noteq> [] \<and> self_err (fst (attempt E self r)) = []) \<or>
         (self_query (fst (attempt E self r)) = [] \<and> self_err (fst (attempt E self r)) \<noteq> []) \<or>
         (self_query (fst (attempt E self r)) = [] \<and> self_err (fst (attempt E self r)) = [] \<and>
          self_reason (fst (attempt E self r)) = ''-'')"
proof (cases "func_timeout (timeout self) r")
  case FunctionTimedOut
  with assms show ?thesis
    by (simp add: attempt_def timeout_err_not_Nil)
next
  case (Ended x)
  show ?thesis
  proof (cases x)
    case (Inl e)
    with Ended assms have "snd (snd (on_exception E self e)) = None"
      by (simp add: attempt_def)
    then have "self_err (fst (on_exception E self e)) \<noteq> []"
      by (rule on_exception_err)
    with Ended Inl show ?thesis
      by (simp add: attempt_def on_exception_fields)
  next
    case (Inr results)
    show ?thesis
    proof (cases "query_of results")
      case (Inl e)
      with Ended Inr assms
      have "snd (snd (on_exception E (self\<lparr>self_completion := Some results\<rparr>) e)) = None"
        by (simp add: attempt_def)
      then have "self_err (fst (on_exception E (self\<lparr>self_completion := Some results\<rparr>) e)) \<noteq> []"
        by (rule on_exception_err)
      with Ended Inr Inl show ?thesis
        by (simp add: attempt_def on_exception_fields)
    next
      case (Inr q)
      with Ended \<open>x = Inr results\<close> assms show ?thesis
        by (simp add: attempt_def)
    qed
  qed
qed

lemma attempt_both_empty_iff:
  assumes "self_query self = []" and "self_err self = []"
      and "snd (snd (attempt E self r)) = None"
  shows "(self_query (fst (attempt E self r)) = [] \<and> self_err (fst (attempt E self r)) = []) \<longleftrightarrow>
         (\<not> 1000 * timeout self < elapsed r \<and>
          (\<exists>s. outcome r = Inr (JStr s) \<and> extract_query s = Inr []))"
proof (cases "func_timeout (timeout self) r")
  case FunctionTimedOut
  then have "1000 * timeout self < elapsed r"
    by (simp add: func_timeout_def split: if_splits)
  with FunctionTimedOut show ?thesis
    by (simp add: attempt_def timeout_err_not_Nil)
next
  case (Ended x)
  then have in_time: "\<not> 1000 * timeout self < elapsed r" and x: "outcome r = x"
    by (simp_all add: func_timeout_def split: if_splits)
  show ?thesis
  proof (cases x)
    case (Inl e)
    with Ended assms have "snd (snd (on_exception E self e)) = None"
      by (simp add: attempt_def)
    then have "self_err (fst (on_exception E self e)) \<noteq> []"
      by (rule on_exception_err)
    with Ended Inl x show ?thesis
      by (simp add: attempt_def)
  next
    case (Inr results)
    show ?thesis
    proof (cases "query_of results")
      case (Inl e)
      with Ended Inr assms
      have "snd (snd (on_exception E (self\<lparr>self_completion := Some results\<rparr>) e)) = None"
        by (simp add: attempt_def)
      then have "self_err (fst (on_exception E (self\<lparr>self_completion := Some results\<rparr>) e)) \<noteq> []"
        by (rule on_exception_err)
      moreover from Inl have "\<not> (\<exists>s. results = JStr s \<and> extract_query s = Inr [])"
        by (auto simp: query_of_def)
      ultimately show ?thesis
        using Ended Inr Inl x by (simp add: attempt_def)
    next
      case (Inr q)
      then obtain s where s: "results = JStr s" "extract_query s = Inr q"
        using query_of_JStr by blast
      with Ended \<open>x = Inr results\<close> Inr x in_time assms show ?thesis
        by (auto simp: attempt_def)
    qed
  qed
qed

lemma generate_query_returned:
  assumes "outcome (snd (generate_query E self question)) = Inr res"
  obtains chat_prompt package n where
    "read_file E (prompt_file self) = Inr chat_prompt"
    "build_package E self question chat_prompt = Inr package"
    "snd (snd (attempt E (reset self) (invoke (function_to_run self) E self package))) = None"
    "tokens_of E self package = Inr n"
    "res = \<lparr>query = self_query (fst (attempt E (reset self)
                       (invoke (function_to_run self) E self package))),
            reason = self_reason (fst (attempt E (reset self)
                       (invoke (function_to_run self) E self package))),
            err = self_err (fst (attempt E (reset self)
                       (invoke (function_to_run self) E self package))),
            tokens_used = n\<rparr>"
  using assms unfolding generate_query_outcome and_then_def
  by (auto split: sum.splits option.splits)

text \<open>
  Claim C4, as stated: on every path that returns, exactly one of \<^verbatim>\<open>query\<close> and
  \<^verbatim>\<open>err\<close> is non-empty. When the chat invoker swallows an exception of the service,
  the text is empty, and so are both fields.
\<close>

theorem C4_both_empty_counterexample:
  "outcome (snd (generate_query (example_env [(100, Inl (OtherException ''APIError'' ''boom''))])
      chat_generator ''How many users?'')) =
   Inr \<lparr>query = '''', reason = ''-'', err = '''', tokens_used = 58\<rparr>"
  by (simp add: example_run_defs)

text \<open>
  Claim C4, amended: on every path of \<^verbatim>\<open>generate_query\<close> that returns a result,
  exactly one of \<^verbatim>\<open>query\<close> and \<^verbatim>\<open>err\<close> is non-empty, except on the success
  path with an empty extracted query: both are empty exactly when the invocation ended
  within the deadline with a text whose piece after the last \<^verbatim>\<open>```sql\<close> is empty
  (such as the empty text of an invoker that swallowed an exception), and then
  \<^verbatim>\<open>reason\<close> is \<^verbatim>\<open>-\<close>.
\<close>

theorem C4_exactly_one_or_empty_success:
  assumes "outcome (snd (generate_query E self question)) = Inr res"
  shows "((query res \<noteq> [] \<and> err res = []) \<or>
          (query res = [] \<and> err res \<noteq> []) \<or>
          (query res = [] \<and> err res = [] \<and> reason res = ''-'')) \<and>
         ((query res = [] \<and> err res = []) \<longleftrightarrow>
          (\<exists>chat_prompt package s.
             read_file E (prompt_file self) = Inr chat_prompt \<and>
             build_package E self question chat_prompt = Inr package \<and>
             \<not> 1000 * timeout self < elapsed (invoke (function_to_run self) E self package) \<and>
             outcome (invoke (function_to_run self) E self package) = Inr (JStr s) \<and>
             extract_query s = Inr []))"
proof -
  from assms obtain chat_prompt package n where
    template: "read_file E (prompt_file self) = Inr chat_prompt" and
    package: "build_package E self question chat_prompt = Inr package" and
    returned: "snd (snd (attempt E (reset self) (invoke (function_to_run self) E self package))) = None" and
    res: "res = \<lparr>query = self_query (fst (attempt E (reset self)
                       (invoke (function_to_run self) E self package))),
            reason = self_reason (fst (attempt E (reset self)
                       (invoke (function_to_run self) E self package))),
            err = self_err (fst (attempt E (reset self)
                       (invoke (function_to_run self) E self package))),
            tokens_used = n\<rparr>"
    by (rule generate_query_returned)
  let ?r = "invoke (function_to_run self) E self package"
  have one: "(query res \<noteq> [] \<and> err res = []) \<or> (query res = [] \<and> err res \<noteq> []) \<or>
      (query res = [] \<and> err res = [] \<and> reason res = ''-'')"
    using attempt_exactly_one [of "reset self" E ?r] returned res by simp
  have "(query res = [] \<and> err res = []) \<longleftrightarrow>
      (\<not> 1000 * timeout self < elapsed ?r \<and>
       (\<exists>s. outcome ?r = Inr (JStr s) \<and> extract_query s = Inr []))"
    using attempt_both_empty_iff [of "reset self" E ?r] returned res by simp
  also have "\<dots> \<longleftrightarrow> (\<exists>chat_prompt package s.
             read_file E (prompt_file self) = Inr chat_prompt \<and>
             build_package E self question chat_prompt = Inr package \<and>
             \<not> 1000 * timeout self < elapsed (invoke (function_to_run self) E self package) \<and>
             outcome (invoke (function_to_run self) E self package) = Inr (JStr s) \<and>
             extract_query s = Inr [])"
    using template package by auto
  finally show ?thesis
    using one by blast
qed

theorem C4_exactly_one_or_empty_success_witness:
  "outcome (snd (generate_query (example_env [(100, Inr ''SELECT 1'')])
      chat_generator ''How many users?'')) =
     Inr \<lparr>query = ''SELECT 1'', reason = ''-'', err = '''', tokens_used = 58\<rparr> \<and>
   ((query \<lparr>query = ''SELECT 1'', reason = ''-'', err = '''', tokens_used = 58\<rparr> \<noteq> [] \<and>
     err \<lparr>query = ''SELECT 1'', reason = ''-'', err = '''', tokens_used = 58\<rparr> = []) \<or>
    (query \<lparr>query = ''SELECT 1'', reason = ''-'', err = '''', tokens_used = 58\<rparr> = [] \<and>
     err \<lparr>query = ''SELECT 1'', reason = ''-'', err = '''', tokens_used = 58\<rparr> \<noteq> []) \<or>
    (query \<lparr>query = ''SELECT 1'', reason = ''-'', err = '''', tokens_used = 58\<rparr> = [] \<and>
     err \<lparr>query = ''SELECT 1'', reason = ''-'', err = '''', tokens_used = 58\<rparr> = [] \<and>
     reason \<lparr>query = ''SELECT 1'', reason = ''-'', err = '''', tokens_used = 58\<rparr> = ''-''))"
proof -
  have run: "outcome (snd (generate_query (example_env [(100, Inr ''SELECT 1'')])
      chat_generator ''How many users?'')) =
     Inr \<lparr>query = ''SELECT 1'', reason = ''-'', err = '''', tokens_used = 58\<rparr>"
    by (simp add: example_run_defs)
  from C4_exactly_one_or_empty_success [OF run] run show ?thesis by blast
qed

text \<open>
  Claim C9: for every raw completion text, the last piece of its split on
  \<^verbatim>\<open>```sql\<close> has no occurrence of \<^verbatim>\<open>```sql\<close>; and the \<^verbatim>\<open>query\<close>
  field of every result that \<^verbatim>\<open>generate_query\<close> returns has none.
\<close>

theorem C9_no_fence:
  "(\<exists>q. extract_query results = Inr q \<and> \<not> sublist sql_fence q) \<and>
   (outcome (snd (generate_query E self question)) = Inr res \<longrightarrow>
      \<not> sublist sql_fence (query res))"
proof (intro conjI impI)
  show "\<exists>q. extract_query results = Inr q \<and> \<not> sublist sql_fence q"
    using extract_query_clean [of results] by (simp add: extract_query_last)
next
  assume "outcome (snd (generate_query E self question)) = Inr res"
  then obtain r where "query res = self_query (fst (attempt E (reset self) r))"
    using generate_query_returns by blast
  then show "\<not> sublist sql_fence (query res)"
    using attempt_query_clean [of "reset self" E r] by simp
qed

theorem C9_no_fence_witness:
  "outcome (snd (generate_query (example_env [(100, Inr ''Here: ```sql SELECT 1'')])
      legacy_generator ''How many users?'')) =
     Inr \<lparr>query = '' SELECT 1'', reason = ''-'', err = '''', tokens_used = 26\<rparr> \<and>
   \<not> sublist sql_fence
     (query \<lparr>query = '' SELECT 1'', reason = ''-'', err = '''', tokens_used = 26\<rparr>)"
proof -
  have run: "outcome (snd (generate_query (example_env [(100, Inr ''Here: ```sql SELECT 1'')])
      legacy_generator ''How many users?'')) =
     Inr \<lparr>query = '' SELECT 1'', reason = ''-'', err = '''', tokens_used = 26\<rparr>"
    by (simp add: example_run_defs)
  from C9_no_fence [of "''''" "example_env [(100, Inr ''Here: ```sql SELECT 1'')]"
      legacy_generator "''How many users?''"
      "\<lparr>query = '' SELECT 1'', reason = ''-'', err = '''', tokens_used = 26\<rparr>"] run
  show ?thesis by blast
qed

subsection \<open>Verbosity\<close>

lemma invoker_verbose:
  "outcome (get_chat_completion E (self\<lparr>verbose := b\<rparr>) mdl messages max_toks temp stp bias) =
     outcome (get_chat_completion E self mdl messages max_toks temp stp bias)"
  "calls (get_chat_completion E (self\<lparr>verbose := b\<rparr>) mdl messages max_toks temp stp bias) =
     calls (get_chat_completion E self mdl messages max_toks temp stp bias)"
  "elapsed (get_chat_completion E (self\<lparr>verbose := b\<rparr>) mdl messages max_toks temp stp bias) =
     elapsed (get_chat_completion E self mdl messages max_toks temp stp bias)"
  "outcome (get_nonchat_completion E (self\<lparr>verbose := b\<rparr>) mdl prompt max_toks temp stp bias) =
     outcome (get_nonchat_completion E self mdl prompt max_toks temp stp bias)"
  "calls (get_nonchat_completion E (self\<lparr>verbose := b\<rparr>) mdl prompt max_toks temp stp bias) =
     calls (get_nonchat_completion E self mdl prompt max_toks temp stp bias)"
  "elapsed (get_nonchat_completion E (self\<lparr>verbose := b\<rparr>) mdl prompt max_toks temp stp bias) =
     elapsed (get_nonchat_completion E self mdl prompt max_toks temp stp bias)"
  by (simp_all add: get_chat_completion_unfold get_nonchat_completion_unfold split: sum.splits)

lemma invoke_verbose:
  "outcome (invoke f E (self\<lparr>verbose := b\<rparr>) package) = outcome (invoke f E self package)"
  "calls (invoke f E (self\<lparr>verbose := b\<rparr>) package) = calls (invoke f E self package)"
  "elapsed (invoke f E (self\<lparr>verbose := b\<rparr>) package) = elapsed (invoke f E self package)"
  by (simp_all add: invoke_def invoker_verbose split: invoker.splits)

text \<open>
  The \<^verbatim>\<open>try\<close> statement reads the invocation through its value and its duration,
  and the verbosity only to print.
\<close>

lemma attempt_verbose:
  assumes "outcome r' = outcome r" and "elapsed r' = elapsed r"
  shows "snd (snd (attempt E (self\<lparr>verbose := b\<rparr>) r')) = snd (snd (attempt E self r))"
    and "self_query (fst (attempt E (self\<lparr>verbose := b\<rparr>) r')) = self_query (fst (attempt E self r))"
    and "self_reason (fst (attempt E (self\<lparr>verbose := b\<rparr>) r')) = self_reason (fst (attempt E self r))"
    and "self_err (fst (attempt E (self\<lparr>verbose := b\<rparr>) r')) = self_err (fst (attempt E self r))"
  using assms
  by (simp_all add: attempt_def func_timeout_def on_exception_def Let_def
      split: sum.splits option.splits)

lemma reset_verbose: "reset (self\<lparr>verbose := b\<rparr>) = (reset self)\<lparr>verbose := b\<rparr>"
  by (simp add: reset_def)

lemma build_package_verbose:
  "build_package E (self\<lparr>verbose := b\<rparr>) question chat_prompt =
   build_package E self question chat_prompt"
  by (rule build_package_cong) simp_all

lemma tokens_of_verbose: "tokens_of E (self\<lparr>verbose := b\<rparr>) package = tokens_of E self package"
  by (rule tokens_of_cong) simp

lemma function_to_run_verbose: "function_to_run (self\<lparr>verbose := b\<rparr>) = function_to_run self"
  by (simp add: function_to_run_def)

lemma generate_query_verbose:
  "outcome (snd (generate_query E (self\<lparr>verbose := b\<rparr>) question)) =
     outcome (snd (generate_query E self question))"
  "calls (snd (generate_query E (self\<lparr>verbose := b\<rparr>) question)) =
     calls (snd (generate_query E self question))"
  by (simp_all add: generate_query_outcome generate_query_calls reset_verbose
      build_package_verbose tokens_of_verbose function_to_run_verbose invoke_verbose
      attempt_verbose split: sum.splits option.splits)

text \<open>
  Claim C10: with the same inputs and the same behaviour of the service, the text that
  each invoker returns (or the exception it raises), and the result that
  \<^verbatim>\<open>generate_query\<close> returns, with its fields \<^verbatim>\<open>query\<close>,
  \<^verbatim>\<open>reason\<close>, \<^verbatim>\<open>err\<close> and \<^verbatim>\<open>tokens_used\<close>, are the same with
  \<^verbatim>\<open>verbose\<close> true and false; so are the calls made to the service.
\<close>

theorem C10_verbose:
  "outcome (get_chat_completion E (self\<lparr>verbose := True\<rparr>) mdl messages max_toks temp stp bias) =
     outcome (get_chat_completion E (self\<lparr>verbose := False\<rparr>) mdl messages max_toks temp stp bias) \<and>
   outcome (get_nonchat_completion E (self\<lparr>verbose := True\<rparr>) mdl prompt max_toks temp stp bias) =
     outcome (get_nonchat_completion E (self\<lparr>verbose := False\<rparr>) mdl prompt max_toks temp stp bias) \<and>
   outcome (snd (generate_query E (self\<lparr>verbose := True\<rparr>) question)) =
     outcome (snd (generate_query E (self\<lparr>verbose := False\<rparr>) question)) \<and>
   calls (snd (generate_query E (self\<lparr>verbose := True\<rparr>) question)) =
     calls (snd (generate_query E (self\<lparr>verbose := False\<rparr>) question))"
  by (simp only: invoker_verbose generate_query_verbose simp_thms)


end
